theory Spec2Isabelle
  imports Complex_Main
begin

section \<open>Data model (frontend/src/types)\<close>

text \<open>
  The interfaces \<^verbatim>\<open>Vehicle\<close>, \<^verbatim>\<open>Addon\<close>, \<^verbatim>\<open>BookingState\<close> and \<^verbatim>\<open>BookingSummary\<close>.
  The fields \<^verbatim>\<open>id\<close>, \<^verbatim>\<open>name\<close> and \<^verbatim>\<open>costPerDay\<close> occur in two interfaces and
  \<^verbatim>\<open>id\<close> is a HOL constant, so the fields of a vehicle carry the prefix \<open>v_\<close> and the
  ones of an add-on the prefix \<open>a_\<close>. Identities are whole JavaScript numbers (\<open>int\<close>);
  amounts of money are JavaScript numbers read as exact rationals. A nullable field is
  an \<open>option\<close>.
\<close>

record Vehicle =
  v_id :: int
  v_name :: string
  v_emoji :: string
  v_costPerDay :: rat

record Addon =
  a_id :: int
  a_name :: string
  a_costPerDay :: rat

record BookingState =
  selectedVehicle :: "Vehicle option"
  pickupDate :: string
  dropoffDate :: string
  selectedAddons :: "int list"
  vehicles :: "Vehicle list"
  addons :: "Addon list"
  loading :: bool
  error :: "string option"
  showConfirmation :: bool

record BookingSummary =
  vehicle :: Vehicle
  days :: int
  baseCost :: rat
  addonsCost :: rat
  subtotal :: rat
  gst :: rat
  total :: rat
  selectedAddonObjects :: "Addon list"

section \<open>The slice (frontend/src/store/bookingSlice.ts)\<close>

definition initialState :: BookingState where
  "initialState =
     \<lparr>selectedVehicle = None, pickupDate = [], dropoffDate = [], selectedAddons = [],
      vehicles = [], addons = [], loading = False, error = None, showConfirmation = False\<rparr>"

subsection \<open>Reducers\<close>

text \<open>
  Each reducer mutates a draft of the state; the model returns the updated record. The
  assignments are kept in the order of the source.
\<close>

definition selectVehicle :: "Vehicle \<Rightarrow> BookingState \<Rightarrow> BookingState" where
  "selectVehicle payload state =
     (let state1 =
        (case selectedVehicle state of
           Some cur \<Rightarrow>
             if v_id cur \<noteq> v_id payload
             then state\<lparr>pickupDate := [], dropoffDate := []\<rparr>
             else state
         | None \<Rightarrow> state)
      in state1\<lparr>selectedVehicle := Some payload, selectedAddons := [], addons := []\<rparr>)"

text \<open>
  \<^verbatim>\<open>a <= b\<close> on two JavaScript strings compares them code unit by code unit; a proper
  prefix is smaller.
\<close>

fun strLe :: "string \<Rightarrow> string \<Rightarrow> bool" where
  "strLe [] ys = True"
| "strLe (x # xs) [] = False"
| "strLe (x # xs) (y # ys) =
     (if (of_char x :: nat) < of_char y then True
      else if (of_char y :: nat) < of_char x then False
      else strLe xs ys)"

definition setPickupDate :: "string \<Rightarrow> BookingState \<Rightarrow> BookingState" where
  "setPickupDate payload state =
     (let state1 = state\<lparr>pickupDate := payload\<rparr>
      in if dropoffDate state1 \<noteq> [] \<and> strLe (dropoffDate state1) payload
         then state1\<lparr>dropoffDate := []\<rparr>
         else state1)"

definition setDropoffDate :: "string \<Rightarrow> BookingState \<Rightarrow> BookingState" where
  "setDropoffDate payload state = state\<lparr>dropoffDate := payload\<rparr>"

text \<open>
  \<^verbatim>\<open>indexOf\<close> finds the first occurrence; \<^verbatim>\<open>splice(index, 1)\<close> removes the element at
  that position, which is what \<open>remove1\<close> does; \<^verbatim>\<open>push\<close> appends.
\<close>

definition toggleAddon :: "int \<Rightarrow> BookingState \<Rightarrow> BookingState" where
  "toggleAddon addonId state =
     (if addonId \<notin> set (selectedAddons state)
      then state\<lparr>selectedAddons := selectedAddons state @ [addonId]\<rparr>
      else state\<lparr>selectedAddons := remove1 addonId (selectedAddons state)\<rparr>)"

text \<open>
  The reducer \<^verbatim>\<open>showConfirmation\<close> has the name of a field of the state and is written
  \<open>showConfirmationR\<close>.
\<close>

definition showConfirmationR :: "BookingState \<Rightarrow> BookingState" where
  "showConfirmationR state = state\<lparr>showConfirmation := True\<rparr>"

definition hideConfirmation :: "BookingState \<Rightarrow> BookingState" where
  "hideConfirmation state = state\<lparr>showConfirmation := False\<rparr>"

definition resetBooking :: "BookingState \<Rightarrow> BookingState" where
  "resetBooking state =
     state\<lparr>selectedVehicle := None, pickupDate := [], dropoffDate := [],
           selectedAddons := [], showConfirmation := False\<rparr>"

subsection \<open>Extra reducers of the two thunks\<close>

text \<open>
  The lifecycle actions of \<^verbatim>\<open>fetchVehicles\<close> and \<^verbatim>\<open>fetchAddons\<close>. A lifecycle action of
  \<^verbatim>\<open>createAsyncThunk\<close> carries the argument of the call that started it (\<^verbatim>\<open>meta.arg\<close>, here
  the vehicle id given to \<^verbatim>\<open>fetchAddons\<close>); the reducers below take it as \<open>arg\<close> and, as
  in the source, never read it. The rejected case of \<^verbatim>\<open>fetchAddons\<close> only logs before it
  empties the list.
\<close>

definition fetchVehicles_pending :: "BookingState \<Rightarrow> BookingState" where
  "fetchVehicles_pending state = state\<lparr>loading := True, error := None\<rparr>"

definition fetchVehicles_fulfilled :: "Vehicle list \<Rightarrow> BookingState \<Rightarrow> BookingState" where
  "fetchVehicles_fulfilled payload state = state\<lparr>loading := False, vehicles := payload\<rparr>"

definition fetchVehicles_rejected :: "string \<Rightarrow> BookingState \<Rightarrow> BookingState" where
  "fetchVehicles_rejected payload state = state\<lparr>loading := False, error := Some payload\<rparr>"

definition fetchAddons_pending :: "int option \<Rightarrow> BookingState \<Rightarrow> BookingState" where
  "fetchAddons_pending arg state =
     (if error state \<noteq> None \<and> error state \<noteq> Some [] then state\<lparr>error := None\<rparr> else state)"

definition fetchAddons_fulfilled :: "int option \<Rightarrow> Addon list \<Rightarrow> BookingState \<Rightarrow> BookingState" where
  "fetchAddons_fulfilled arg payload state = state\<lparr>addons := payload\<rparr>"

definition fetchAddons_rejected :: "int option \<Rightarrow> string \<Rightarrow> BookingState \<Rightarrow> BookingState" where
  "fetchAddons_rejected arg payload state = state\<lparr>addons := []\<rparr>"

subsection \<open>The slice reducer\<close>

text \<open>
  The actions of the slice and the reducer \<^verbatim>\<open>bookingSlice.reducer\<close> that applies one of them.
  The store runs a sequence of dispatched actions from left to right.
\<close>

datatype action =
    SelectVehicle Vehicle
  | SetPickupDate string
  | SetDropoffDate string
  | ToggleAddon int
  | ShowConfirmation
  | HideConfirmation
  | ResetBooking
  | FetchVehiclesPending
  | FetchVehiclesFulfilled "Vehicle list"
  | FetchVehiclesRejected string
  | FetchAddonsPending "int option"
  | FetchAddonsFulfilled "int option" "Addon list"
  | FetchAddonsRejected "int option" string

fun reducer :: "BookingState \<Rightarrow> action \<Rightarrow> BookingState" where
  "reducer state (SelectVehicle v) = selectVehicle v state"
| "reducer state (SetPickupDate d) = setPickupDate d state"
| "reducer state (SetDropoffDate d) = setDropoffDate d state"
| "reducer state (ToggleAddon i) = toggleAddon i state"
| "reducer state ShowConfirmation = showConfirmationR state"
| "reducer state HideConfirmation = hideConfirmation state"
| "reducer state ResetBooking = resetBooking state"
| "reducer state FetchVehiclesPending = fetchVehicles_pending state"
| "reducer state (FetchVehiclesFulfilled vs) = fetchVehicles_fulfilled vs state"
| "reducer state (FetchVehiclesRejected e) = fetchVehicles_rejected e state"
| "reducer state (FetchAddonsPending arg) = fetchAddons_pending arg state"
| "reducer state (FetchAddonsFulfilled arg as) = fetchAddons_fulfilled arg as state"
| "reducer state (FetchAddonsRejected arg e) = fetchAddons_rejected arg e state"

definition dispatchAll :: "BookingState \<Rightarrow> action list \<Rightarrow> BookingState" where
  "dispatchAll state acts = foldl reducer state acts"

text \<open>
  \<^verbatim>\<open>handleSelect\<close> of VehicleSelection.tsx dispatches \<^verbatim>\<open>selectVehicle(vehicle)\<close> and then the
  thunk \<^verbatim>\<open>fetchAddons(vehicle.id)\<close>, whose pending action is dispatched at once. The
  fulfilled or rejected action of that call arrives later, with the same argument, after
  whatever the user did in between.
\<close>

definition handleSelect :: "Vehicle \<Rightarrow> action list" where
  "handleSelect v = [SelectVehicle v, FetchAddonsPending (Some (v_id v))]"

section \<open>The catalog (backend services)\<close>

text \<open>
  \<^verbatim>\<open>VehicleService.getAllVehicles\<close> and \<^verbatim>\<open>AddonService.getAddonsByVehicleId\<close>, the data the
  two thunks fetch. An emoji is given by its UTF-8 bytes. A \<^verbatim>\<open>null\<close> vehicle id is \<open>None\<close>.
\<close>

definition getAllVehicles :: "Vehicle list" where
  "getAllVehicles =
     [\<lparr>v_id = 1, v_name = ''Sedan'',
       v_emoji = [CHR 0xF0, CHR 0x9F, CHR 0x9A, CHR 0x97], v_costPerDay = 2500\<rparr>,
      \<lparr>v_id = 2, v_name = ''SUV'',
       v_emoji = [CHR 0xF0, CHR 0x9F, CHR 0x9A, CHR 0x99], v_costPerDay = 3500\<rparr>,
      \<lparr>v_id = 3, v_name = ''Luxury'',
       v_emoji = [CHR 0xF0, CHR 0x9F, CHR 0x8F, CHR 0x8E, CHR 0xEF, CHR 0xB8, CHR 0x8F],
       v_costPerDay = 5000\<rparr>,
      \<lparr>v_id = 4, v_name = ''Van'',
       v_emoji = [CHR 0xF0, CHR 0x9F, CHR 0x9A, CHR 0x90], v_costPerDay = 4000\<rparr>]"

definition GPS_NAVIGATION :: Addon where
  "GPS_NAVIGATION = \<lparr>a_id = 1, a_name = ''GPS Navigation'', a_costPerDay = 200\<rparr>"

definition CHILD_SEAT :: Addon where
  "CHILD_SEAT = \<lparr>a_id = 2, a_name = ''Child Seat'', a_costPerDay = 150\<rparr>"

definition INSURANCE :: Addon where
  "INSURANCE = \<lparr>a_id = 5, a_name = ''Insurance'', a_costPerDay = 500\<rparr>"

definition ROADSIDE_ASSISTANCE :: Addon where
  "ROADSIDE_ASSISTANCE = \<lparr>a_id = 6, a_name = ''Roadside Assistance'', a_costPerDay = 250\<rparr>"

definition WIFI_HOTSPOT :: Addon where
  "WIFI_HOTSPOT = \<lparr>a_id = 3, a_name = ''WiFi Hotspot'', a_costPerDay = 300\<rparr>"

definition DRIVER_SERVICE :: Addon where
  "DRIVER_SERVICE = \<lparr>a_id = 4, a_name = ''Driver Service'', a_costPerDay = 1000\<rparr>"

definition PREMIUM_INSURANCE :: Addon where
  "PREMIUM_INSURANCE = \<lparr>a_id = 7, a_name = ''Premium Insurance'', a_costPerDay = 800\<rparr>"

definition CONCIERGE_SERVICE :: Addon where
  "CONCIERGE_SERVICE = \<lparr>a_id = 8, a_name = ''Concierge Service'', a_costPerDay = 1200\<rparr>"

definition CHAUFFEUR_SERVICE :: Addon where
  "CHAUFFEUR_SERVICE = \<lparr>a_id = 9, a_name = ''Chauffeur Service'', a_costPerDay = 1500\<rparr>"

definition PREMIUM_SOUND_SYSTEM :: Addon where
  "PREMIUM_SOUND_SYSTEM =
     \<lparr>a_id = 10, a_name = ''Premium Sound System'', a_costPerDay = 400\<rparr>"

definition getAddonsByVehicleId :: "int option \<Rightarrow> Addon list" where
  "getAddonsByVehicleId vehicleId =
     (let basic = [GPS_NAVIGATION, CHILD_SEAT, INSURANCE, ROADSIDE_ASSISTANCE] in
      case vehicleId of
        None \<Rightarrow> basic
      | Some n \<Rightarrow>
          if n = 1 then basic
          else if n = 2 \<or> n = 4 then basic @ [WIFI_HOTSPOT]
          else if n = 3 then
            basic @ [WIFI_HOTSPOT, DRIVER_SERVICE, PREMIUM_INSURANCE, CONCIERGE_SERVICE,
                     CHAUFFEUR_SERVICE, PREMIUM_SOUND_SYSTEM]
          else basic)"

definition Sedan :: Vehicle where
  "Sedan = getAllVehicles ! 0"

definition Luxury :: Vehicle where
  "Luxury = getAllVehicles ! 2"

section \<open>Calendar dates\<close>

text \<open>
  The application reads its dates through the JavaScript \<^verbatim>\<open>Date\<close> constructor. A
  \<^verbatim>\<open>Date\<close> is a time value in milliseconds since 1970-01-01 UTC or it is invalid (its
  time value is NaN); the model has \<open>int option\<close> for it, \<open>None\<close> the invalid date.
  The day arithmetic is the one of ECMAScript (\<^verbatim>\<open>DayFromYear\<close>, \<^verbatim>\<open>MakeDay\<close>).
\<close>

definition isDigit :: "char \<Rightarrow> bool" where
  "isDigit c = (48 \<le> (of_char c :: nat) \<and> (of_char c :: nat) \<le> 57)"

definition digitVal :: "char \<Rightarrow> nat" where
  "digitVal c = of_char c - 48"

text \<open>The regular expression \<^verbatim>\<open>/^\d{4}-\d{2}-\d{2}$/\<close>.\<close>

definition dateRegex :: "string \<Rightarrow> bool" where
  "dateRegex s =
     (length s = 10 \<and>
      isDigit (s ! 0) \<and> isDigit (s ! 1) \<and> isDigit (s ! 2) \<and> isDigit (s ! 3) \<and>
      s ! 4 = CHR ''-'' \<and> isDigit (s ! 5) \<and> isDigit (s ! 6) \<and>
      s ! 7 = CHR ''-'' \<and> isDigit (s ! 8) \<and> isDigit (s ! 9))"

definition yearOf :: "string \<Rightarrow> int" where
  "yearOf s = int (1000 * digitVal (s ! 0) + 100 * digitVal (s ! 1) +
                   10 * digitVal (s ! 2) + digitVal (s ! 3))"

definition monthOf :: "string \<Rightarrow> int" where
  "monthOf s = int (10 * digitVal (s ! 5) + digitVal (s ! 6))"

definition dayOf :: "string \<Rightarrow> int" where
  "dayOf s = int (10 * digitVal (s ! 8) + digitVal (s ! 9))"

definition isLeap :: "int \<Rightarrow> bool" where
  "isLeap y = (y mod 4 = 0 \<and> (y mod 100 \<noteq> 0 \<or> y mod 400 = 0))"

definition daysInMonth :: "int \<Rightarrow> int \<Rightarrow> int" where
  "daysInMonth y m =
     (if m = 2 then (if isLeap y then 29 else 28)
      else if m = 4 \<or> m = 6 \<or> m = 9 \<or> m = 11 then 30 else 31)"

definition daysBeforeMonth :: "int \<Rightarrow> int \<Rightarrow> int" where
  "daysBeforeMonth y m =
     (if m = 1 then 0 else if m = 2 then 31
      else (if isLeap y then 1 else 0) +
        (if m = 3 then 59 else if m = 4 then 90 else if m = 5 then 120
         else if m = 6 then 151 else if m = 7 then 181 else if m = 8 then 212
         else if m = 9 then 243 else if m = 10 then 273 else if m = 11 then 304
         else 334))"

definition DayFromYear :: "int \<Rightarrow> int" where
  "DayFromYear y =
     365 * (y - 1970) + (y - 1969) div 4 - (y - 1901) div 100 + (y - 1601) div 400"

definition dayNumber :: "int \<Rightarrow> int \<Rightarrow> int \<Rightarrow> int" where
  "dayNumber y m d = DayFromYear y + daysBeforeMonth y m + d - 1"

text \<open>
  The day a string of the form YYYY-MM-DD names when it names a real calendar day (month
  01 to 12 and a day that the month has), counted from 1970-01-01. This is no function of
  the source: it is the part of the \<^verbatim>\<open>Date\<close> constructor on which every engine agrees.
\<close>

definition calendarDay :: "string \<Rightarrow> int option" where
  "calendarDay s =
     (if dateRegex s \<and> 1 \<le> monthOf s \<and> monthOf s \<le> 12 \<and>
         1 \<le> dayOf s \<and> dayOf s \<le> daysInMonth (yearOf s) (monthOf s)
      then Some (dayNumber (yearOf s) (monthOf s) (dayOf s))
      else None)"

definition MS_PER_DAY :: int where
  "MS_PER_DAY = 1000 * 60 * 60 * 24"

text \<open>
  \<^verbatim>\<open>new Date(s)\<close>. A string that names a real calendar day is read as midnight UTC of
  that day. What the constructor makes of any other string is left to the engine and is
  the parameter \<open>parseOther\<close>: a year alone, a date with a time, a year of five digits,
  and also a string of the form YYYY-MM-DD whose day the month does not have (for
  2030-02-30 one engine gives an invalid date, another rolls the day over into March).
\<close>

definition newDate :: "(string \<Rightarrow> int option) \<Rightarrow> string \<Rightarrow> int option" where
  "newDate parseOther s =
     (case calendarDay s of Some n \<Rightarrow> Some (n * MS_PER_DAY) | None \<Rightarrow> parseOther s)"

text \<open>
  \<^verbatim>\<open>new Date(s + 'T00:00:00')\<close> followed by \<^verbatim>\<open>setHours(0, 0, 0, 0)\<close>: a midnight in local
  time. A local midnight is represented by the number of its calendar day; two local
  midnights are ordered as their day numbers are. For a string that names a real calendar
  day it is the midnight of that day; for any other string it is what the engine makes of
  it, the parameter \<open>localOther\<close>. The evaluation day (\<^verbatim>\<open>new Date()\<close> with
  \<^verbatim>\<open>setHours(0, 0, 0, 0)\<close>) is the parameter \<open>today\<close> of the functions below, the number of
  the current calendar day.
\<close>

definition localMidnight :: "(string \<Rightarrow> int option) \<Rightarrow> string \<Rightarrow> int option" where
  "localMidnight localOther s =
     (case calendarDay s of Some n \<Rightarrow> Some n | None \<Rightarrow> localOther s)"

text \<open>
  An engine that takes every day from 01 to 31 in a string of the form YYYY-MM-DD and
  rolls a day the month does not have over into the next month, as \<^verbatim>\<open>MakeDay\<close> does.
  It is used on strings of that form only. The other kind of engine gives an invalid
  date there: \<open>\<lambda>_. None\<close> for both parameters.
\<close>

definition rollOverDay :: "string \<Rightarrow> int option" where
  "rollOverDay s =
     (if dateRegex s \<and> 1 \<le> monthOf s \<and> monthOf s \<le> 12 \<and> 1 \<le> dayOf s \<and> dayOf s \<le> 31
      then Some (dayNumber (yearOf s) (monthOf s) (dayOf s))
      else None)"

definition rollOverDate :: "string \<Rightarrow> int option" where
  "rollOverDate s = map_option (\<lambda>n. n * MS_PER_DAY) (rollOverDay s)"

text \<open>The relational operators on two dates; a comparison with an invalid date is false.\<close>

fun dateLt :: "int option \<Rightarrow> int option \<Rightarrow> bool" where
  "dateLt (Some a) (Some b) = (a < b)"
| "dateLt _ _ = False"

fun dateLe :: "int option \<Rightarrow> int option \<Rightarrow> bool" where
  "dateLe (Some a) (Some b) = (a \<le> b)"
| "dateLe _ _ = False"

section \<open>The date fields (frontend/src/components/DateSelection.tsx)\<close>

text \<open>
  The functions of the component take the two engine parameters: \<open>parseOther\<close> where the
  source calls \<^verbatim>\<open>new Date(dateString)\<close>, \<open>localOther\<close> where it calls
  \<^verbatim>\<open>new Date(dateString + 'T00:00:00')\<close>.
\<close>

definition isCompleteDate :: "(string \<Rightarrow> int option) \<Rightarrow> string \<Rightarrow> bool" where
  "isCompleteDate parseOther dateString =
     (if dateString = [] then False
      else if \<not> dateRegex dateString then False
      else newDate parseOther dateString \<noteq> None)"

definition isValidDate ::
  "(string \<Rightarrow> int option) \<Rightarrow> (string \<Rightarrow> int option) \<Rightarrow> int \<Rightarrow> string \<Rightarrow> bool" where
  "isValidDate parseOther localOther today dateString =
     (if dateString = [] then True
      else if \<not> isCompleteDate parseOther dateString then True
      else dateLe (Some today) (localMidnight localOther dateString))"

definition isValidDropoffDate ::
  "(string \<Rightarrow> int option) \<Rightarrow> (string \<Rightarrow> int option) \<Rightarrow> string \<Rightarrow> string \<Rightarrow> bool" where
  "isValidDropoffDate parseOther localOther dropoffDateString pickupDateString =
     (if dropoffDateString = [] \<or> pickupDateString = [] then True
      else if \<not> isCompleteDate parseOther dropoffDateString \<or>
              \<not> isCompleteDate parseOther pickupDateString then True
      else dateLt (localMidnight localOther pickupDateString)
                  (localMidnight localOther dropoffDateString))"

text \<open>
  The two error messages the component keeps beside the store (\<^verbatim>\<open>useState\<close>). A message
  is the key given to the translation function.
\<close>

record DateErrors =
  pickupError :: "string option"
  dropoffError :: "string option"

text \<open>
  The change handlers. Each takes the value of the input field, reads \<^verbatim>\<open>pickupDate\<close> and
  \<^verbatim>\<open>dropoffDate\<close> of the store as the component rendered them (the state before the
  event), dispatches to the store and sets the messages. A \<^verbatim>\<open>return\<close> before the dispatch
  leaves the store as it was.
\<close>

definition handlePickupChange ::
  "(string \<Rightarrow> int option) \<Rightarrow> (string \<Rightarrow> int option) \<Rightarrow> int \<Rightarrow> string \<Rightarrow>
   BookingState \<times> DateErrors \<Rightarrow> BookingState \<times> DateErrors" where
  "handlePickupChange parseOther localOther today val = (\<lambda>(state, errs).
     if val \<noteq> [] \<and> isCompleteDate parseOther val \<and>
        dateLt (localMidnight localOther val) (Some today)
     then (state, errs\<lparr>pickupError := Some ''validation.invalidPickupDate''\<rparr>)
     else
       let state1 = setPickupDate val state in
       if val \<noteq> [] \<and> isCompleteDate parseOther val then
         let errs1 =
           (if \<not> isValidDate parseOther localOther today val
            then errs\<lparr>pickupError := Some ''validation.invalidPickupDate''\<rparr>
            else errs\<lparr>pickupError := None\<rparr>)
         in
           if dropoffDate state \<noteq> [] \<and> isCompleteDate parseOther (dropoffDate state) \<and>
              \<not> isValidDropoffDate parseOther localOther (dropoffDate state) val
           then (setDropoffDate [] state1,
                 errs1\<lparr>dropoffError := Some ''validation.invalidDropoffDate''\<rparr>)
           else if dropoffDate state \<noteq> [] \<and> isCompleteDate parseOther (dropoffDate state)
           then (state1, errs1\<lparr>dropoffError := None\<rparr>)
           else (state1, errs1)
       else (state1, errs\<lparr>pickupError := None\<rparr>))"

definition handleDropoffChange ::
  "(string \<Rightarrow> int option) \<Rightarrow> (string \<Rightarrow> int option) \<Rightarrow> int \<Rightarrow> string \<Rightarrow>
   BookingState \<times> DateErrors \<Rightarrow> BookingState \<times> DateErrors" where
  "handleDropoffChange parseOther localOther today val = (\<lambda>(state, errs).
     if val \<noteq> [] \<and> isCompleteDate parseOther val \<and>
        dateLt (localMidnight localOther val) (Some today)
     then (state, errs\<lparr>dropoffError := Some ''validation.pastDate''\<rparr>)
     else if val \<noteq> [] \<and> isCompleteDate parseOther val \<and>
             pickupDate state \<noteq> [] \<and> isCompleteDate parseOther (pickupDate state) \<and>
             dateLe (localMidnight localOther val) (localMidnight localOther (pickupDate state))
     then (state, errs\<lparr>dropoffError := Some ''validation.invalidDropoffDate''\<rparr>)
     else
       let state1 = setDropoffDate val state in
       if val \<noteq> [] \<and> isCompleteDate parseOther val then
         if pickupDate state = []
         then (state1, errs\<lparr>dropoffError := Some ''validation.invalidDropoffDate''\<rparr>)
         else if \<not> isValidDate parseOther localOther today val
         then (state1, errs\<lparr>dropoffError := Some ''validation.pastDate''\<rparr>)
         else if \<not> isValidDropoffDate parseOther localOther val (pickupDate state)
         then (state1, errs\<lparr>dropoffError := Some ''validation.invalidDropoffDate''\<rparr>)
         else (state1, errs\<lparr>dropoffError := None\<rparr>)
       else (state1, errs\<lparr>dropoffError := None\<rparr>))"

section \<open>Selectors (frontend/src/store/selectors)\<close>

text \<open>
  \<^verbatim>\<open>Math.abs\<close> and \<^verbatim>\<open>Math.ceil\<close> of a NaN are NaN, and \<^verbatim>\<open>diffDays || 0\<close> turns a NaN (and a
  zero) into 0: an invalid date on either side gives 0 days.
\<close>

definition selectRentalDays :: "(string \<Rightarrow> int option) \<Rightarrow> BookingState \<Rightarrow> int" where
  "selectRentalDays parseOther booking =
     (if pickupDate booking = [] \<or> dropoffDate booking = [] then 0
      else
        case (newDate parseOther (pickupDate booking), newDate parseOther (dropoffDate booking)) of
          (Some pickup, Some dropoff) \<Rightarrow>
            (let diffTime = \<bar>dropoff - pickup\<bar>
             in \<lceil>(of_int diffTime :: rat) / of_int (1000 * 60 * 60 * 24)\<rceil>)
        | _ \<Rightarrow> 0)"

text \<open>
  In \<open>selectBookingSummary\<close> the locals of the source that share their names with the
  fields of the summary are written \<open>n\<close> (days), \<open>base\<close> (baseCost), \<open>objs\<close>
  (selectedAddonObjects), \<open>extra\<close> (addonsCost), \<open>sub\<close> (subtotal), \<open>tax\<close> (gst) and
  \<open>tot\<close> (total). \<^verbatim>\<open>reduce\<close> with a start value is a left fold.
\<close>

definition selectBookingSummary ::
  "(string \<Rightarrow> int option) \<Rightarrow> BookingState \<Rightarrow> BookingSummary option" where
  "selectBookingSummary parseOther booking =
     (let n = selectRentalDays parseOther booking in
      case selectedVehicle booking of
        None \<Rightarrow> None
      | Some v \<Rightarrow>
          if pickupDate booking = [] \<or> dropoffDate booking = [] \<or> n = 0 then None
          else
            let base = v_costPerDay v * of_int n;
                objs = filter (\<lambda>addon. a_id addon \<in> set (selectedAddons booking)) (addons booking);
                extra = foldl (\<lambda>sum addon. sum + a_costPerDay addon * of_int n) 0 objs;
                sub = base + extra;
                tax = sub * (18 / 100);
                tot = sub + tax
            in Some \<lparr>vehicle = v, days = n, baseCost = base, addonsCost = extra,
                      subtotal = sub, gst = tax, total = tot, selectedAddonObjects = objs\<rparr>)"

definition selectIsBookingValid :: "(string \<Rightarrow> int option) \<Rightarrow> BookingState \<Rightarrow> bool" where
  "selectIsBookingValid parseOther booking =
     (let n = selectRentalDays parseOther booking in
      selectedVehicle booking \<noteq> None \<and> pickupDate booking \<noteq> [] \<and>
      dropoffDate booking \<noteq> [] \<and> n > 0)"

section \<open>Example bookings\<close>

text \<open>
  A booking of the Luxury vehicle for three days with two of its add-ons selected, used
  to evaluate the theorems below on a concrete state.
\<close>

definition exampleBooking :: BookingState where
  "exampleBooking =
     initialState\<lparr>selectedVehicle := Some Luxury, pickupDate := ''2030-01-01'',
        dropoffDate := ''2030-01-04'', selectedAddons := [1, 9],
        addons := getAddonsByVehicleId (Some 3)\<rparr>"

text \<open>
  The Sedan for three days with no add-on, and the Luxury vehicle for two days with GPS
  navigation and insurance.
\<close>

definition sedanBooking :: BookingState where
  "sedanBooking =
     initialState\<lparr>selectedVehicle := Some Sedan, pickupDate := ''2030-01-01'',
        dropoffDate := ''2030-01-04'', addons := getAddonsByVehicleId (Some 1)\<rparr>"

definition luxuryBooking :: BookingState where
  "luxuryBooking =
     initialState\<lparr>selectedVehicle := Some Luxury, pickupDate := ''2030-01-02'',
        dropoffDate := ''2030-01-04'', selectedAddons := [1, 5],
        addons := getAddonsByVehicleId (Some 3)\<rparr>"

text \<open>
  The Sedan from the fifth to the ninth of March 2030, and the Sedan with the pickup on
  the 28th of February 2030 and a dropoff string 2030-02-30, a day that February does not
  have.
\<close>

definition marchBooking :: BookingState where
  "marchBooking =
     initialState\<lparr>selectedVehicle := Some Sedan, pickupDate := ''2030-03-05'',
        dropoffDate := ''2030-03-09'', addons := getAddonsByVehicleId (Some 1)\<rparr>"

definition febBooking :: BookingState where
  "febBooking =
     initialState\<lparr>selectedVehicle := Some Sedan, pickupDate := ''2030-02-28'',
        dropoffDate := ''2030-02-30'', addons := getAddonsByVehicleId (Some 1)\<rparr>"

section \<open>The pricing rule in the words of the specification\<close>

text \<open>
  The cost of the add-ons as the specification words it: the sum, over the selected ids,
  of the daily cost times the number of days of the add-on the id resolves to in the
  catalog; an id that resolves to nothing adds nothing.
\<close>

definition addonsCostOfIds :: "int list \<Rightarrow> Addon list \<Rightarrow> int \<Rightarrow> rat" where
  "addonsCostOfIds ids catalog n =
     (\<Sum>i\<leftarrow>ids. case find (\<lambda>a. a_id a = i) catalog of
                   None \<Rightarrow> 0
                 | Some a \<Rightarrow> a_costPerDay a * of_int n)"

text \<open>The date fields with no message showing.\<close>

definition noErrors :: DateErrors where
  "noErrors = \<lparr>pickupError = None, dropoffError = None\<rparr>"

section \<open>Runs of the store\<close>

text \<open>
  Three sequences of actions, each a run of the store from the initial state. In
  \<open>staleRace\<close> the user selects the Luxury vehicle and then the Sedan, and the add-ons
  fetched for the Luxury vehicle arrive after that. In \<open>sedanToggleRun\<close> the Sedan is
  selected, its add-ons arrive, and the add-on with id 9 (one that only the Luxury vehicle
  has) is toggled. In \<open>lateSedanRun\<close> the user selects the Sedan and then the Luxury
  vehicle, the add-ons of the Luxury vehicle arrive, the user ticks its add-on 9, and the
  add-ons fetched for the Sedan arrive last.
\<close>

definition staleRace :: "action list" where
  "staleRace =
     handleSelect Luxury @ handleSelect Sedan @
     [FetchAddonsFulfilled (Some (v_id Luxury)) (getAddonsByVehicleId (Some (v_id Luxury)))]"

definition lateSedanRun :: "action list" where
  "lateSedanRun =
     handleSelect Sedan @ handleSelect Luxury @
     [FetchAddonsFulfilled (Some (v_id Luxury)) (getAddonsByVehicleId (Some (v_id Luxury))),
      ToggleAddon 9,
      FetchAddonsFulfilled (Some (v_id Sedan)) (getAddonsByVehicleId (Some (v_id Sedan)))]"

definition sedanToggleRun :: "action list" where
  "sedanToggleRun =
     handleSelect Sedan @
     [FetchAddonsFulfilled (Some (v_id Sedan)) (getAddonsByVehicleId (Some (v_id Sedan))),
      ToggleAddon 9]"

section \<open>Auxiliary facts\<close>

subsection \<open>Day counts\<close>

lemma ceiling_days_nonneg:
  "0 \<le> \<lceil>(of_int \<bar>d\<bar> :: rat) / of_int (1000 * 60 * 60 * 24)\<rceil>"
proof -
  have "(0::rat) \<le> of_int \<bar>d\<bar> / of_int (1000 * 60 * 60 * 24)"
    by (intro divide_nonneg_nonneg) simp_all
  then have "\<lceil>0::rat\<rceil> \<le> \<lceil>(of_int \<bar>d\<bar> :: rat) / of_int (1000 * 60 * 60 * 24)\<rceil>"
    by (rule ceiling_mono)
  then show ?thesis by simp
qed

lemma selectRentalDays_nonneg: "0 \<le> selectRentalDays parseOther booking"
  using ceiling_days_nonneg
  by (simp add: selectRentalDays_def Let_def split: option.splits
      del: of_int_abs of_int_mult of_int_numeral)

lemma selectRentalDays_invalid:
  "newDate parseOther (pickupDate booking) = None \<or>
   newDate parseOther (dropoffDate booking) = None
   \<Longrightarrow> selectRentalDays parseOther booking = 0"
  by (auto simp: selectRentalDays_def split: option.splits)

lemma calendarDay_dateRegex: "calendarDay s = Some n \<Longrightarrow> dateRegex s"
  unfolding calendarDay_def by (cases "dateRegex s") simp_all

lemma MS_PER_DAY_eq: "MS_PER_DAY = 86400000"
  by (simp add: MS_PER_DAY_def)

lemma abs_whole_days: "\<bar>b * MS_PER_DAY - a * MS_PER_DAY\<bar> = \<bar>b - a\<bar> * 86400000"
proof -
  have "b * MS_PER_DAY - a * MS_PER_DAY = (b - a) * MS_PER_DAY"
    by (rule left_diff_distrib [symmetric])
  then have "\<bar>b * MS_PER_DAY - a * MS_PER_DAY\<bar> = \<bar>b - a\<bar> * \<bar>MS_PER_DAY\<bar>"
    by (simp only: abs_mult)
  then show ?thesis by (simp only: MS_PER_DAY_eq abs_numeral)
qed

lemma ceiling_whole_days:
  "\<lceil>(of_int \<bar>b * MS_PER_DAY - a * MS_PER_DAY\<bar> :: rat) / of_int (1000 * 60 * 60 * 24)\<rceil>
     = \<bar>b - a\<bar>"
proof -
  have "(of_int \<bar>b * MS_PER_DAY - a * MS_PER_DAY\<bar> :: rat) / of_int (1000 * 60 * 60 * 24)
      = of_int \<bar>b - a\<bar>"
    unfolding abs_whole_days by simp
  then show ?thesis by (simp only: ceiling_of_int)
qed

text \<open>
  Between two dates that are whole days since the epoch the day count is the distance of
  their day numbers; two real calendar days are such dates on every engine.
\<close>

lemma selectRentalDays_whole_days:
  assumes "pickupDate s \<noteq> []" "dropoffDate s \<noteq> []"
    and p: "newDate parseOther (pickupDate s) = Some (a * MS_PER_DAY)"
    and d: "newDate parseOther (dropoffDate s) = Some (b * MS_PER_DAY)"
  shows "selectRentalDays parseOther s = \<bar>b - a\<bar>"
proof -
  have "selectRentalDays parseOther s =
      \<lceil>(of_int \<bar>b * MS_PER_DAY - a * MS_PER_DAY\<bar> :: rat) / of_int (1000 * 60 * 60 * 24)\<rceil>"
    unfolding selectRentalDays_def p d Let_def using assms(1,2)
    by (simp only: if_False simp_thms prod.case option.case)
  then show ?thesis by (simp only: ceiling_whole_days)
qed

lemma selectRentalDays_iso:
  assumes "calendarDay (pickupDate s) = Some a" "calendarDay (dropoffDate s) = Some b"
  shows "selectRentalDays parseOther s = \<bar>b - a\<bar>"
proof -
  have rp: "dateRegex (pickupDate s)" using assms(1) by (rule calendarDay_dateRegex)
  have rd: "dateRegex (dropoffDate s)" using assms(2) by (rule calendarDay_dateRegex)
  have ne: "pickupDate s \<noteq> []" "dropoffDate s \<noteq> []"
    using rp rd by (auto simp: dateRegex_def)
  have p: "newDate parseOther (pickupDate s) = Some (a * MS_PER_DAY)"
    using assms(1) by (simp add: newDate_def)
  have d: "newDate parseOther (dropoffDate s) = Some (b * MS_PER_DAY)"
    using assms(2) by (simp add: newDate_def)
  from ne p d show ?thesis by (rule selectRentalDays_whole_days)
qed

subsection \<open>The example booking\<close>

lemma calendarDay_examples:
  "calendarDay ''2030-01-01'' = Some 21915" "calendarDay ''2030-01-04'' = Some 21918"
  "calendarDay ''2030-13-45'' = None"
  by code_simp+

lemma exampleBooking_fields:
  "selectedVehicle exampleBooking = Some Luxury" "pickupDate exampleBooking = ''2030-01-01''"
  "dropoffDate exampleBooking = ''2030-01-04''" "selectedAddons exampleBooking = [1, 9]"
  "addons exampleBooking = getAddonsByVehicleId (Some 3)"
  by (simp_all add: exampleBooking_def initialState_def)

lemma exampleBooking_days: "selectRentalDays parseOther exampleBooking = 3"
  using selectRentalDays_iso [of exampleBooking 21915 21918 parseOther]
  by (simp add: exampleBooking_fields calendarDay_examples)

lemma sameDay_days:
  "selectRentalDays parseOther (exampleBooking\<lparr>dropoffDate := ''2030-01-01''\<rparr>) = 0"
  using selectRentalDays_iso [of "exampleBooking\<lparr>dropoffDate := ''2030-01-01''\<rparr>" 21915 21915]
  by (simp add: exampleBooking_fields calendarDay_examples)

section \<open>Selecting a vehicle\<close>

text \<open>
  Claim C4. \<^verbatim>\<open>selectVehicle\<close> makes the payload the selected vehicle and empties both the
  selected add-on ids and the available add-ons, always. It empties the two dates when a
  vehicle with a different id was selected before, and leaves them as they were otherwise
  (no vehicle selected before, or one with the same id). The catalog of vehicles, the
  loading flag, the error and the confirmation flag stay as they were.
\<close>

theorem selectVehicle_effect:
  "selectedVehicle (selectVehicle v s) = Some v \<and>
   selectedAddons (selectVehicle v s) = [] \<and> addons (selectVehicle v s) = [] \<and>
   (if (\<exists>cur. selectedVehicle s = Some cur \<and> v_id cur \<noteq> v_id v)
    then pickupDate (selectVehicle v s) = [] \<and> dropoffDate (selectVehicle v s) = []
    else pickupDate (selectVehicle v s) = pickupDate s \<and>
         dropoffDate (selectVehicle v s) = dropoffDate s) \<and>
   vehicles (selectVehicle v s) = vehicles s \<and> loading (selectVehicle v s) = loading s \<and>
   error (selectVehicle v s) = error s \<and>
   showConfirmation (selectVehicle v s) = showConfirmation s"
  by (auto simp: selectVehicle_def Let_def split: option.splits)

theorem selectVehicle_effect_witness:
  "pickupDate (selectVehicle Sedan exampleBooking) = [] \<and>
   dropoffDate (selectVehicle Sedan exampleBooking) = [] \<and>
   pickupDate (selectVehicle Luxury exampleBooking) = ''2030-01-01'' \<and>
   dropoffDate (selectVehicle Luxury exampleBooking) = ''2030-01-04'' \<and>
   selectedAddons (selectVehicle Luxury exampleBooking) = [] \<and>
   addons (selectVehicle Luxury exampleBooking) = []"
  using selectVehicle_effect [of Sedan exampleBooking]
    selectVehicle_effect [of Luxury exampleBooking]
  by (simp add: exampleBooking_fields Sedan_def Luxury_def getAllVehicles_def)

section \<open>Resetting the booking\<close>

text \<open>
  Claim C10. \<^verbatim>\<open>resetBooking\<close> sets the selected vehicle to none, empties both dates and the
  selected add-on ids and lowers the confirmation flag; the catalog of vehicles, the
  available add-ons, the loading flag and the error are left as they were. So the add-ons
  fetched for the vehicle selected before the reset are still there after it, with no
  vehicle selected.
\<close>

theorem resetBooking_effect:
  "selectedVehicle (resetBooking s) = None \<and> pickupDate (resetBooking s) = [] \<and>
   dropoffDate (resetBooking s) = [] \<and> selectedAddons (resetBooking s) = [] \<and>
   showConfirmation (resetBooking s) = False \<and>
   vehicles (resetBooking s) = vehicles s \<and> addons (resetBooking s) = addons s \<and>
   loading (resetBooking s) = loading s \<and> error (resetBooking s) = error s"
  by (simp add: resetBooking_def)

theorem resetBooking_effect_witness:
  "selectedVehicle (resetBooking exampleBooking) = None \<and>
   addons (resetBooking exampleBooking) = getAddonsByVehicleId (Some 3) \<and>
   addons (resetBooking exampleBooking) \<noteq> []"
  using resetBooking_effect [of exampleBooking]
  by (simp add: exampleBooking_fields getAddonsByVehicleId_def)

section \<open>The validity gate\<close>

text \<open>
  Claim C7. \<^verbatim>\<open>selectIsBookingValid\<close> is true exactly when a vehicle is selected, the pickup
  date is set, the dropoff date is set and the day count is positive. Replacing the
  selected add-on ids by any other list does not change its value.
\<close>

theorem selectIsBookingValid_iff:
  "selectIsBookingValid parseOther s =
     (selectedVehicle s \<noteq> None \<and> pickupDate s \<noteq> [] \<and> dropoffDate s \<noteq> [] \<and>
      0 < selectRentalDays parseOther s) \<and>
   selectIsBookingValid parseOther (s\<lparr>selectedAddons := ids\<rparr>) =
     selectIsBookingValid parseOther s"
  by (simp add: selectIsBookingValid_def selectRentalDays_def Let_def)

theorem selectIsBookingValid_iff_witness:
  "selectIsBookingValid (\<lambda>_. None) exampleBooking \<and>
   selectIsBookingValid (\<lambda>_. None) (exampleBooking\<lparr>selectedAddons := []\<rparr>) \<and>
   \<not> selectIsBookingValid (\<lambda>_. None) (exampleBooking\<lparr>dropoffDate := ''2030-01-01''\<rparr>)"
  using selectIsBookingValid_iff [of "\<lambda>_. None" exampleBooking "[]"]
    selectIsBookingValid_iff [of "\<lambda>_. None" "exampleBooking\<lparr>dropoffDate := ''2030-01-01''\<rparr>" "[]"]
    exampleBooking_days [of "\<lambda>_. None"] sameDay_days [of "\<lambda>_. None"]
  by (simp add: exampleBooking_fields)

section \<open>When there is a summary\<close>

text \<open>
  Claim C8. \<^verbatim>\<open>selectBookingSummary\<close> returns \<^verbatim>\<open>null\<close> exactly when no vehicle is selected,
  or one of the two dates is unset, or the day count is 0. A summary that is returned has
  a positive day count, the one of \<^verbatim>\<open>selectRentalDays\<close>, and the selected vehicle: it is
  never a summary of zero days. A date that does not parse (an invalid \<^verbatim>\<open>Date\<close>) on either
  side gives 0 days and so no summary.
\<close>

theorem selectBookingSummary_None_iff:
  "(selectBookingSummary parseOther s = None) =
     (selectedVehicle s = None \<or> pickupDate s = [] \<or> dropoffDate s = [] \<or>
      selectRentalDays parseOther s = 0) \<and>
   (case selectBookingSummary parseOther s of
      None \<Rightarrow> True
    | Some summary \<Rightarrow> 0 < days summary \<and> days summary = selectRentalDays parseOther s \<and>
                      selectedVehicle s = Some (vehicle summary)) \<and>
   (if newDate parseOther (pickupDate s) = None \<or> newDate parseOther (dropoffDate s) = None
    then selectRentalDays parseOther s = 0 \<and> selectBookingSummary parseOther s = None
    else True)"
proof -
  have nn: "0 \<le> selectRentalDays parseOther s" by (rule selectRentalDays_nonneg)
  have a: "(selectBookingSummary parseOther s = None) =
     (selectedVehicle s = None \<or> pickupDate s = [] \<or> dropoffDate s = [] \<or>
      selectRentalDays parseOther s = 0)"
    by (simp add: selectBookingSummary_def Let_def split: option.splits)
  have b: "(case selectBookingSummary parseOther s of
      None \<Rightarrow> True
    | Some summary \<Rightarrow> 0 < days summary \<and> days summary = selectRentalDays parseOther s \<and>
                      selectedVehicle s = Some (vehicle summary))"
    using nn by (auto simp: selectBookingSummary_def Let_def split: option.splits)
  have c: "(if newDate parseOther (pickupDate s) = None \<or>
               newDate parseOther (dropoffDate s) = None
    then selectRentalDays parseOther s = 0 \<and> selectBookingSummary parseOther s = None
    else True)"
    using selectRentalDays_invalid [of parseOther s] a by auto
  from a b c show ?thesis by blast
qed

theorem selectBookingSummary_None_iff_witness:
  "selectBookingSummary (\<lambda>_. None) exampleBooking \<noteq> None \<and>
   selectBookingSummary (\<lambda>_. None) (exampleBooking\<lparr>dropoffDate := ''2030-13-45''\<rparr>) = None \<and>
   selectBookingSummary (\<lambda>_. None) (exampleBooking\<lparr>dropoffDate := ''2030-01-01''\<rparr>) = None \<and>
   selectBookingSummary (\<lambda>_. None) (exampleBooking\<lparr>selectedVehicle := None\<rparr>) = None \<and>
   selectBookingSummary (\<lambda>_. None) febBooking = None \<and>
   (case selectBookingSummary rollOverDate febBooking of
      None \<Rightarrow> False
    | Some summary \<Rightarrow> days summary = 2)"
proof -
  have b: "newDate (\<lambda>_. None) ''2030-13-45'' = None"
    by (simp add: newDate_def calendarDay_examples)
  have f: "selectedVehicle febBooking = Some Sedan" "pickupDate febBooking = ''2030-02-28''"
    "dropoffDate febBooking = ''2030-02-30''"
    by (simp_all add: febBooking_def initialState_def)
  have n: "newDate (\<lambda>_. None) ''2030-02-30'' = None"
    "newDate rollOverDate ''2030-02-28'' = Some (21973 * MS_PER_DAY)"
    "newDate rollOverDate ''2030-02-30'' = Some (21975 * MS_PER_DAY)"
    by code_simp+
  have r: "selectRentalDays rollOverDate febBooking = 2"
    using selectRentalDays_whole_days [of febBooking rollOverDate 21973 21975] f n
    by simp
  have e: "selectBookingSummary (\<lambda>_. None) exampleBooking \<noteq> None \<and>
     selectBookingSummary (\<lambda>_. None) (exampleBooking\<lparr>dropoffDate := ''2030-13-45''\<rparr>) = None \<and>
     selectBookingSummary (\<lambda>_. None) (exampleBooking\<lparr>dropoffDate := ''2030-01-01''\<rparr>) = None \<and>
     selectBookingSummary (\<lambda>_. None) (exampleBooking\<lparr>selectedVehicle := None\<rparr>) = None"
    using selectBookingSummary_None_iff [of "\<lambda>_. None" exampleBooking]
      selectBookingSummary_None_iff [of "\<lambda>_. None" "exampleBooking\<lparr>dropoffDate := ''2030-13-45''\<rparr>"]
      selectBookingSummary_None_iff [of "\<lambda>_. None" "exampleBooking\<lparr>dropoffDate := ''2030-01-01''\<rparr>"]
      selectBookingSummary_None_iff [of "\<lambda>_. None" "exampleBooking\<lparr>selectedVehicle := None\<rparr>"]
      exampleBooking_days [of "\<lambda>_. None"] sameDay_days [of "\<lambda>_. None"] b
    by (simp add: exampleBooking_fields)
  have g: "selectBookingSummary (\<lambda>_. None) febBooking = None"
    using selectBookingSummary_None_iff [of "\<lambda>_. None" febBooking] f n(1) by simp
  have h: "(case selectBookingSummary rollOverDate febBooking of
      None \<Rightarrow> False
    | Some summary \<Rightarrow> days summary = 2)"
    using selectBookingSummary_None_iff [of rollOverDate febBooking] f r
    by (simp split: option.splits)
  from e g h show ?thesis by blast
qed

section \<open>Pricing\<close>

lemma foldl_sum_list:
  "foldl (\<lambda>sum addon. sum + f addon) acc xs = acc + (\<Sum>a\<leftarrow>xs. f a)"
  for acc :: rat
  by (induction xs arbitrary: acc) (simp_all add: add.assoc)

lemma sum_list_single_out:
  fixes g :: "int \<Rightarrow> rat"
  assumes "distinct ids" "g k = 0"
  shows "(\<Sum>i\<leftarrow>ids. if i = k then x else g i) = (if k \<in> set ids then x else 0) + (\<Sum>i\<leftarrow>ids. g i)"
  using assms by (induction ids) auto

lemma find_None_id: "k \<notin> a_id ` set cs \<Longrightarrow> find (\<lambda>a. a_id a = k) cs = None"
  by (induction cs) auto

lemma sum_filter_eq_sum_ids:
  fixes f :: "Addon \<Rightarrow> rat"
  assumes "distinct ids" "distinct (map a_id cat)"
  shows "(\<Sum>a\<leftarrow>filter (\<lambda>a. a_id a \<in> set ids) cat. f a) =
         (\<Sum>i\<leftarrow>ids. case find (\<lambda>a. a_id a = i) cat of None \<Rightarrow> 0 | Some a \<Rightarrow> f a)"
  using assms(2)
proof (induction cat)
  case Nil
  then show ?case by simp
next
  case (Cons c cs)
  let ?g = "\<lambda>i. case find (\<lambda>a. a_id a = i) cs of None \<Rightarrow> 0 | Some a \<Rightarrow> f a"
  from Cons.prems have nin: "a_id c \<notin> a_id ` set cs" and d: "distinct (map a_id cs)" by auto
  have g0: "?g (a_id c) = 0" using find_None_id [OF nin] by simp
  have "(\<Sum>i\<leftarrow>ids. case find (\<lambda>a. a_id a = i) (c # cs) of None \<Rightarrow> 0 | Some a \<Rightarrow> f a)
      = (\<Sum>i\<leftarrow>ids. if i = a_id c then f c else ?g i)"
    by (intro arg_cong [where f = sum_list] map_cong) auto
  also have "\<dots> = (if a_id c \<in> set ids then f c else 0) + (\<Sum>i\<leftarrow>ids. ?g i)"
    using assms(1) g0 by (rule sum_list_single_out)
  also have "(\<Sum>i\<leftarrow>ids. ?g i) = (\<Sum>a\<leftarrow>filter (\<lambda>a. a_id a \<in> set ids) cs. f a)"
    using Cons.IH [OF d] by simp
  finally show ?case by simp
qed

lemma calendarDay_example2: "calendarDay ''2030-01-02'' = Some 21916"
  by code_simp

lemma sedanBooking_fields:
  "selectedVehicle sedanBooking = Some Sedan" "pickupDate sedanBooking = ''2030-01-01''"
  "dropoffDate sedanBooking = ''2030-01-04''" "selectedAddons sedanBooking = []"
  "addons sedanBooking = getAddonsByVehicleId (Some 1)"
  by (simp_all add: sedanBooking_def initialState_def)

lemma luxuryBooking_fields:
  "selectedVehicle luxuryBooking = Some Luxury" "pickupDate luxuryBooking = ''2030-01-02''"
  "dropoffDate luxuryBooking = ''2030-01-04''" "selectedAddons luxuryBooking = [1, 5]"
  "addons luxuryBooking = getAddonsByVehicleId (Some 3)"
  by (simp_all add: luxuryBooking_def initialState_def)

lemma sedanBooking_days: "selectRentalDays parseOther sedanBooking = 3"
  using selectRentalDays_iso [of sedanBooking 21915 21918 parseOther]
  by (simp add: sedanBooking_fields calendarDay_examples)

lemma luxuryBooking_days: "selectRentalDays parseOther luxuryBooking = 2"
  using selectRentalDays_iso [of luxuryBooking 21916 21918 parseOther]
  by (simp add: luxuryBooking_fields calendarDay_examples calendarDay_example2)

lemma catalog_costs:
  "v_costPerDay Sedan = 2500" "v_costPerDay Luxury = 5000"
  by (simp_all add: Sedan_def Luxury_def getAllVehicles_def)

lemma luxury_objs:
  "filter (\<lambda>a. a_id a \<in> set [1, 5]) (getAddonsByVehicleId (Some 3)) = [GPS_NAVIGATION, INSURANCE]"
  by (simp add: getAddonsByVehicleId_def GPS_NAVIGATION_def CHILD_SEAT_def INSURANCE_def
      ROADSIDE_ASSISTANCE_def WIFI_HOTSPOT_def DRIVER_SERVICE_def PREMIUM_INSURANCE_def
      CONCIERGE_SERVICE_def CHAUFFEUR_SERVICE_def PREMIUM_SOUND_SYSTEM_def)

text \<open>
  Claim C6. When a vehicle is selected, both dates are set and the day count is positive,
  there is a summary, and in it: the base cost is the daily cost of the vehicle times the
  days; the resolved add-ons are the available add-ons whose id is selected; the add-ons
  cost is the sum of their daily costs times the days, which is the sum over the selected
  ids that resolve in the catalog when no id occurs twice (an id that does not resolve
  adds nothing); the subtotal is the sum of the two; the tax is 18 hundredths of the
  subtotal; the total is subtotal plus tax. At 2500 a day, 3 days and no add-on the five
  amounts are 7500, 0, 7500, 1350 and 8850. JavaScript numbers are taken as exact
  rationals here, with 18 hundredths for the literal \<^verbatim>\<open>0.18\<close>; the rounding of double
  arithmetic is outside the model.
\<close>

theorem selectBookingSummary_pricing:
  assumes "selectedVehicle s = Some v" "pickupDate s \<noteq> []" "dropoffDate s \<noteq> []"
    and "0 < selectRentalDays parseOther s"
  shows "\<exists>summary. selectBookingSummary parseOther s = Some summary \<and>
     vehicle summary = v \<and> days summary = selectRentalDays parseOther s \<and>
     baseCost summary = v_costPerDay v * of_int (days summary) \<and>
     selectedAddonObjects summary =
       filter (\<lambda>a. a_id a \<in> set (selectedAddons s)) (addons s) \<and>
     addonsCost summary =
       (\<Sum>a\<leftarrow>selectedAddonObjects summary. a_costPerDay a * of_int (days summary)) \<and>
     (distinct (selectedAddons s) \<and> distinct (map a_id (addons s)) \<longrightarrow>
        addonsCost summary = addonsCostOfIds (selectedAddons s) (addons s) (days summary)) \<and>
     subtotal summary = baseCost summary + addonsCost summary \<and>
     gst summary = subtotal summary * (18 / 100) \<and>
     total summary = subtotal summary + gst summary \<and>
     (v_costPerDay v = 2500 \<and> days summary = 3 \<and> selectedAddons s = [] \<longrightarrow>
        baseCost summary = 7500 \<and> addonsCost summary = 0 \<and> subtotal summary = 7500 \<and>
        gst summary = 1350 \<and> total summary = 8850)"
proof -
  define n where "n = selectRentalDays parseOther s"
  define objs where "objs = filter (\<lambda>a. a_id a \<in> set (selectedAddons s)) (addons s)"
  define extra where "extra = (\<Sum>a\<leftarrow>objs. a_costPerDay a * of_int n)"
  define summary where "summary =
     \<lparr>vehicle = v, days = n, baseCost = v_costPerDay v * of_int n, addonsCost = extra,
      subtotal = v_costPerDay v * of_int n + extra,
      gst = (v_costPerDay v * of_int n + extra) * (18 / 100),
      total = v_costPerDay v * of_int n + extra + (v_costPerDay v * of_int n + extra) * (18 / 100),
      selectedAddonObjects = objs\<rparr>"
  have sel: "selectBookingSummary parseOther s = Some summary"
    using assms
    by (simp add: selectBookingSummary_def Let_def foldl_sum_list summary_def extra_def
        objs_def n_def)
  have ids: "distinct (selectedAddons s) \<and> distinct (map a_id (addons s)) \<longrightarrow>
      extra = addonsCostOfIds (selectedAddons s) (addons s) n"
    unfolding extra_def objs_def addonsCostOfIds_def
    by (auto intro: sum_filter_eq_sum_ids)
  have ex: "v_costPerDay v = 2500 \<and> n = 3 \<and> selectedAddons s = [] \<longrightarrow>
      v_costPerDay v * of_int n = 7500 \<and> extra = 0"
    by (auto simp: extra_def objs_def)
  have fields: "vehicle summary = v" "days summary = n"
    "baseCost summary = v_costPerDay v * of_int n" "selectedAddonObjects summary = objs"
    "addonsCost summary = extra" "subtotal summary = v_costPerDay v * of_int n + extra"
    "gst summary = (v_costPerDay v * of_int n + extra) * (18 / 100)"
    "total summary = v_costPerDay v * of_int n + extra + (v_costPerDay v * of_int n + extra) * (18 / 100)"
    by (simp_all add: summary_def)
  show ?thesis
  proof (intro exI [of _ summary] conjI)
    show "selectBookingSummary parseOther s = Some summary" by (rule sel)
    show "v_costPerDay v = 2500 \<and> days summary = 3 \<and> selectedAddons s = [] \<longrightarrow>
        baseCost summary = 7500 \<and> addonsCost summary = 0 \<and> subtotal summary = 7500 \<and>
        gst summary = 1350 \<and> total summary = 8850"
      using ex by (auto simp: fields)
  qed (use ids in \<open>simp_all add: fields n_def [symmetric] extra_def objs_def\<close>)
qed

theorem selectBookingSummary_pricing_witness:
  "(\<exists>summary. selectBookingSummary (\<lambda>_. None) sedanBooking = Some summary \<and>
      days summary = 3 \<and> baseCost summary = 7500 \<and> addonsCost summary = 0 \<and>
      subtotal summary = 7500 \<and> gst summary = 1350 \<and> total summary = 8850) \<and>
   (\<exists>summary. selectBookingSummary (\<lambda>_. None) luxuryBooking = Some summary \<and>
      days summary = 2 \<and> baseCost summary = 10000 \<and> addonsCost summary = 1400 \<and>
      subtotal summary = 11400 \<and> gst summary = 2052 \<and> total summary = 13452)"
proof
  have pos: "0 < selectRentalDays (\<lambda>_. None) sedanBooking" by (simp add: sedanBooking_days)
  have ne: "pickupDate sedanBooking \<noteq> []" "dropoffDate sedanBooking \<noteq> []"
    by (simp_all add: sedanBooking_fields)
  from selectBookingSummary_pricing [OF sedanBooking_fields(1) ne pos]
  obtain summary where s: "selectBookingSummary (\<lambda>_. None) sedanBooking = Some summary"
    "days summary = selectRentalDays (\<lambda>_. None) sedanBooking"
    "v_costPerDay Sedan = 2500 \<and> days summary = 3 \<and> selectedAddons sedanBooking = [] \<longrightarrow>
        baseCost summary = 7500 \<and> addonsCost summary = 0 \<and> subtotal summary = 7500 \<and>
        gst summary = 1350 \<and> total summary = 8850"
    by blast
  have d: "days summary = 3" using s(2) by (simp add: sedanBooking_days)
  from s(3) d have "baseCost summary = 7500 \<and> addonsCost summary = 0 \<and>
      subtotal summary = 7500 \<and> gst summary = 1350 \<and> total summary = 8850"
    by (simp add: catalog_costs sedanBooking_fields)
  with s(1) d
  show "\<exists>summary. selectBookingSummary (\<lambda>_. None) sedanBooking = Some summary \<and>
      days summary = 3 \<and> baseCost summary = 7500 \<and> addonsCost summary = 0 \<and>
      subtotal summary = 7500 \<and> gst summary = 1350 \<and> total summary = 8850"
    by blast
next
  have pos: "0 < selectRentalDays (\<lambda>_. None) luxuryBooking" by (simp add: luxuryBooking_days)
  have ne: "pickupDate luxuryBooking \<noteq> []" "dropoffDate luxuryBooking \<noteq> []"
    by (simp_all add: luxuryBooking_fields)
  from selectBookingSummary_pricing [OF luxuryBooking_fields(1) ne pos]
  obtain summary where s: "selectBookingSummary (\<lambda>_. None) luxuryBooking = Some summary"
    "days summary = selectRentalDays (\<lambda>_. None) luxuryBooking"
    "baseCost summary = v_costPerDay Luxury * of_int (days summary)"
    "selectedAddonObjects summary =
       filter (\<lambda>a. a_id a \<in> set (selectedAddons luxuryBooking)) (addons luxuryBooking)"
    "addonsCost summary =
       (\<Sum>a\<leftarrow>selectedAddonObjects summary. a_costPerDay a * of_int (days summary))"
    "subtotal summary = baseCost summary + addonsCost summary"
    "gst summary = subtotal summary * (18 / 100)"
    "total summary = subtotal summary + gst summary"
    by blast
  have d: "days summary = 2" using s(2) by (simp add: luxuryBooking_days)
  have o: "selectedAddonObjects summary = [GPS_NAVIGATION, INSURANCE]"
    using s(4) by (simp only: luxuryBooking_fields luxury_objs)
  have b: "baseCost summary = 10000" using s(3) d by (simp add: catalog_costs)
  have a: "addonsCost summary = 1400"
    unfolding s(5) o d by (simp add: GPS_NAVIGATION_def INSURANCE_def)
  have st: "subtotal summary = 11400" using s(6) a b by simp
  have g: "gst summary = 2052" using s(7) st by simp
  have t: "total summary = 13452" using s(8) st g by simp
  from s(1) d b a st g t
  show "\<exists>summary. selectBookingSummary (\<lambda>_. None) luxuryBooking = Some summary \<and>
      days summary = 2 \<and> baseCost summary = 10000 \<and> addonsCost summary = 1400 \<and>
      subtotal summary = 11400 \<and> gst summary = 2052 \<and> total summary = 13452"
    by blast
qed

section \<open>The order of calendar days\<close>

subsection \<open>Day numbers\<close>















subsection \<open>Digits\<close>






lemma digit_of_char:
  assumes "isDigit c"
  shows "(of_char c :: nat) = digitVal c + 48" and "digitVal c < 10"
  using assms unfolding isDigit_def digitVal_def by linarith+

lemma digitVal_inj:
  assumes "isDigit x" "isDigit y"
  shows "(digitVal x = digitVal y) = (x = y)"
proof
  assume "digitVal x = digitVal y"
  then have "(of_char x :: nat) = of_char y"
    using digit_of_char(1) [OF assms(1)] digit_of_char(1) [OF assms(2)] by simp
  then show "x = y" by simp
qed simp






subsection \<open>Calendar days as strings\<close>










section \<open>Changing the pickup date\<close>

lemma dateLt_today: "dateLt x (Some t) = (\<exists>n. x = Some n \<and> n < t)"
  by (cases x) simp_all

lemma dateLe_Some: "dateLe x y = (\<exists>a b. x = Some a \<and> y = Some b \<and> a \<le> b)"
  by (cases x; cases y) simp_all

lemma dateLt_Some: "dateLt x y = (\<exists>a b. x = Some a \<and> y = Some b \<and> a < b)"
  by (cases x; cases y) simp_all

lemma isCompleteDate_nonempty: "isCompleteDate parseOther d \<Longrightarrow> d \<noteq> []"
  by (simp add: isCompleteDate_def split: if_splits)

lemma pickup_rejected:
  assumes "isCompleteDate parseOther d" "localMidnight localOther d = Some n" "n < today"
  shows "handlePickupChange parseOther localOther today d (s, e) =
         (s, e\<lparr>pickupError := Some ''validation.invalidPickupDate''\<rparr>)"
  using assms isCompleteDate_nonempty [OF assms(1)]
  by (simp add: handlePickupChange_def)

lemma pickup_accepted_state:
  assumes "\<not> (d \<noteq> [] \<and> isCompleteDate parseOther d \<and>
              (\<exists>n. localMidnight localOther d = Some n \<and> n < today))"
  shows "fst (handlePickupChange parseOther localOther today d (s, e)) = setPickupDate d s \<or>
         fst (handlePickupChange parseOther localOther today d (s, e)) =
           setDropoffDate [] (setPickupDate d s)"
  using assms
  by (auto simp: handlePickupChange_def dateLt_today Let_def)

lemma setPickupDate_fields:
  "pickupDate (setPickupDate d s) = d"
  "selectedVehicle (setPickupDate d s) = selectedVehicle s"
  "selectedAddons (setPickupDate d s) = selectedAddons s"
  "vehicles (setPickupDate d s) = vehicles s" "addons (setPickupDate d s) = addons s"
  "loading (setPickupDate d s) = loading s" "error (setPickupDate d s) = error s"
  "showConfirmation (setPickupDate d s) = showConfirmation s"
  by (simp_all add: setPickupDate_def Let_def)


text \<open>
  Claim C2. When the value of the pickup field is non-empty, a complete date (it passes
  \<^verbatim>\<open>isCompleteDate\<close>) and its local midnight is earlier than today, the handler returns
  before it dispatches: the booking state is left exactly as it was, and only the message
  of the pickup field is set. For every other value (the empty string, an incomplete
  date, a complete date of today or later) the pickup date of the state becomes that
  value; the vehicle, the add-ons and the confirmation flag are not touched. This holds
  whatever the engine makes of the strings that name no real calendar day.
\<close>

theorem handlePickupChange_effect:
  "(if d \<noteq> [] \<and> isCompleteDate parseOther d \<and>
       (\<exists>n. localMidnight localOther d = Some n \<and> n < today)
    then fst (handlePickupChange parseOther localOther today d (s, e)) = s \<and>
         snd (handlePickupChange parseOther localOther today d (s, e)) =
           e\<lparr>pickupError := Some ''validation.invalidPickupDate''\<rparr>
    else pickupDate (fst (handlePickupChange parseOther localOther today d (s, e))) = d \<and>
         selectedVehicle (fst (handlePickupChange parseOther localOther today d (s, e))) =
           selectedVehicle s \<and>
         selectedAddons (fst (handlePickupChange parseOther localOther today d (s, e))) =
           selectedAddons s \<and>
         addons (fst (handlePickupChange parseOther localOther today d (s, e))) = addons s \<and>
         showConfirmation (fst (handlePickupChange parseOther localOther today d (s, e))) =
           showConfirmation s)"
proof (cases "d \<noteq> [] \<and> isCompleteDate parseOther d \<and>
       (\<exists>n. localMidnight localOther d = Some n \<and> n < today)")
  case True
  then obtain n where "isCompleteDate parseOther d" "localMidnight localOther d = Some n"
    "n < today" by blast
  from pickup_rejected [OF this, of s e]
  have "fst (handlePickupChange parseOther localOther today d (s, e)) = s \<and>
         snd (handlePickupChange parseOther localOther today d (s, e)) =
           e\<lparr>pickupError := Some ''validation.invalidPickupDate''\<rparr>"
    by simp
  then show ?thesis unfolding if_P [OF True] .
next
  case False
  from pickup_accepted_state [OF False, of s e]
  have "pickupDate (fst (handlePickupChange parseOther localOther today d (s, e))) = d \<and>
         selectedVehicle (fst (handlePickupChange parseOther localOther today d (s, e))) =
           selectedVehicle s \<and>
         selectedAddons (fst (handlePickupChange parseOther localOther today d (s, e))) =
           selectedAddons s \<and>
         addons (fst (handlePickupChange parseOther localOther today d (s, e))) = addons s \<and>
         showConfirmation (fst (handlePickupChange parseOther localOther today d (s, e))) =
           showConfirmation s"
    by (auto simp: setPickupDate_fields setDropoffDate_def)
  then show ?thesis unfolding if_not_P [OF False] .
qed

theorem handlePickupChange_effect_witness:
  "fst (handlePickupChange (\<lambda>_. None) (\<lambda>_. None) 21915 ''2029-12-31'' (exampleBooking, noErrors))
     = exampleBooking \<and>
   pickupError (snd (handlePickupChange (\<lambda>_. None) (\<lambda>_. None) 21915 ''2029-12-31''
     (exampleBooking, noErrors))) = Some ''validation.invalidPickupDate'' \<and>
   pickupDate (fst (handlePickupChange (\<lambda>_. None) (\<lambda>_. None) 21915 ''2030-01-02''
     (exampleBooking, noErrors))) = ''2030-01-02'' \<and>
   pickupDate (fst (handlePickupChange (\<lambda>_. None) (\<lambda>_. None) 21915 []
     (exampleBooking, noErrors))) = [] \<and>
   fst (handlePickupChange rollOverDate rollOverDay 21915 ''2029-02-30''
     (exampleBooking, noErrors)) = exampleBooking \<and>
   pickupDate (fst (handlePickupChange (\<lambda>_. None) (\<lambda>_. None) 21915 ''2029-02-30''
     (exampleBooking, noErrors))) = ''2029-02-30''"
proof -
  have c: "isCompleteDate (\<lambda>_. None) ''2029-12-31''" "isCompleteDate (\<lambda>_. None) ''2030-01-02''"
    "isCompleteDate rollOverDate ''2029-02-30''" "\<not> isCompleteDate (\<lambda>_. None) ''2029-02-30''"
    by code_simp+
  have l: "localMidnight (\<lambda>_. None) ''2029-12-31'' = Some 21914"
    "localMidnight (\<lambda>_. None) ''2030-01-02'' = Some 21916"
    "localMidnight rollOverDay ''2029-02-30'' = Some 21610"
    by code_simp+
  show ?thesis
    using handlePickupChange_effect [of "''2029-12-31''" "\<lambda>_. None" "\<lambda>_. None" 21915
        exampleBooking noErrors]
      handlePickupChange_effect [of "''2030-01-02''" "\<lambda>_. None" "\<lambda>_. None" 21915
        exampleBooking noErrors]
      handlePickupChange_effect [of "[]" "\<lambda>_. None" "\<lambda>_. None" 21915 exampleBooking noErrors]
      handlePickupChange_effect [of "''2029-02-30''" rollOverDate rollOverDay 21915
        exampleBooking noErrors]
      handlePickupChange_effect [of "''2029-02-30''" "\<lambda>_. None" "\<lambda>_. None" 21915
        exampleBooking noErrors]
      c l
    by simp
qed

section \<open>Changing the dropoff date\<close>

lemma dropoff_rejected_past:
  assumes "isCompleteDate parseOther d" "localMidnight localOther d = Some n" "n < today"
  shows "handleDropoffChange parseOther localOther today d (s, e) =
         (s, e\<lparr>dropoffError := Some ''validation.pastDate''\<rparr>)"
  using assms isCompleteDate_nonempty [OF assms(1)]
  by (simp add: handleDropoffChange_def)

lemma dropoff_rejected_order:
  assumes "isCompleteDate parseOther d" "localMidnight localOther d = Some n" "\<not> n < today"
    and "isCompleteDate parseOther (pickupDate s)"
    and "localMidnight localOther (pickupDate s) = Some p" "n \<le> p"
  shows "handleDropoffChange parseOther localOther today d (s, e) =
         (s, e\<lparr>dropoffError := Some ''validation.invalidDropoffDate''\<rparr>)"
  using assms isCompleteDate_nonempty [OF assms(1)] isCompleteDate_nonempty [OF assms(4)]
  by (simp add: handleDropoffChange_def)

lemma dropoff_accepted:
  assumes "\<not> (d \<noteq> [] \<and> isCompleteDate parseOther d \<and>
      ((\<exists>n. localMidnight localOther d = Some n \<and> n < today) \<or>
       (pickupDate s \<noteq> [] \<and> isCompleteDate parseOther (pickupDate s) \<and>
        (\<exists>n p. localMidnight localOther d = Some n \<and>
               localMidnight localOther (pickupDate s) = Some p \<and> n \<le> p))))"
  shows "fst (handleDropoffChange parseOther localOther today d (s, e)) = setDropoffDate d s"
  using assms
  by (auto simp: handleDropoffChange_def dateLt_today dateLe_Some Let_def)

text \<open>
  Claim C3. A value of the dropoff field that is a complete date and is either earlier
  than today, or not later than the current pickup when that is a complete date as well,
  is rejected: the state is left as it was, so the dropoff date keeps its value, and a
  message is set on the field. Every other value becomes the dropoff date, and nothing
  else in the state changes. In particular, whenever the value and the pickup are
  complete dates and the value is the same day as the pickup or an earlier one, the
  dropoff date is unchanged. This holds whatever the engine makes of the strings that
  name no real calendar day.
\<close>

theorem handleDropoffChange_effect:
  "(if d \<noteq> [] \<and> isCompleteDate parseOther d \<and>
       ((\<exists>n. localMidnight localOther d = Some n \<and> n < today) \<or>
        (pickupDate s \<noteq> [] \<and> isCompleteDate parseOther (pickupDate s) \<and>
         (\<exists>n p. localMidnight localOther d = Some n \<and>
                localMidnight localOther (pickupDate s) = Some p \<and> n \<le> p)))
    then fst (handleDropoffChange parseOther localOther today d (s, e)) = s \<and>
         dropoffError (snd (handleDropoffChange parseOther localOther today d (s, e))) \<noteq> None
    else fst (handleDropoffChange parseOther localOther today d (s, e)) =
           s\<lparr>dropoffDate := d\<rparr>) \<and>
   (isCompleteDate parseOther d \<and> isCompleteDate parseOther (pickupDate s) \<and>
    localMidnight localOther d = Some n \<and> localMidnight localOther (pickupDate s) = Some p \<and>
    n \<le> p
      \<longrightarrow> dropoffDate (fst (handleDropoffChange parseOther localOther today d (s, e))) =
            dropoffDate s)"
proof (intro conjI impI)
  let ?C = "d \<noteq> [] \<and> isCompleteDate parseOther d \<and>
       ((\<exists>n. localMidnight localOther d = Some n \<and> n < today) \<or>
        (pickupDate s \<noteq> [] \<and> isCompleteDate parseOther (pickupDate s) \<and>
         (\<exists>n p. localMidnight localOther d = Some n \<and>
                localMidnight localOther (pickupDate s) = Some p \<and> n \<le> p)))"
  show "if ?C
    then fst (handleDropoffChange parseOther localOther today d (s, e)) = s \<and>
         dropoffError (snd (handleDropoffChange parseOther localOther today d (s, e))) \<noteq> None
    else fst (handleDropoffChange parseOther localOther today d (s, e)) =
           s\<lparr>dropoffDate := d\<rparr>"
  proof (cases ?C)
    case True
    then consider n where "isCompleteDate parseOther d" "localMidnight localOther d = Some n"
        "n < today"
      | n p where "isCompleteDate parseOther d" "localMidnight localOther d = Some n"
        "\<not> n < today" "isCompleteDate parseOther (pickupDate s)"
        "localMidnight localOther (pickupDate s) = Some p" "n \<le> p"
      by force
    then have "fst (handleDropoffChange parseOther localOther today d (s, e)) = s \<and>
         dropoffError (snd (handleDropoffChange parseOther localOther today d (s, e))) \<noteq> None"
    proof cases
      case 1
      from dropoff_rejected_past [OF this, of s e] show ?thesis by simp
    next
      case 2
      from dropoff_rejected_order [OF this, of e] show ?thesis by simp
    qed
    then show ?thesis unfolding if_P [OF True] .
  next
    case False
    have "fst (handleDropoffChange parseOther localOther today d (s, e)) =
        s\<lparr>dropoffDate := d\<rparr>"
      using dropoff_accepted [OF False, of e] by (simp add: setDropoffDate_def)
    then show ?thesis unfolding if_not_P [OF False] .
  qed
next
  assume a: "isCompleteDate parseOther d \<and> isCompleteDate parseOther (pickupDate s) \<and>
    localMidnight localOther d = Some n \<and> localMidnight localOther (pickupDate s) = Some p \<and>
    n \<le> p"
  show "dropoffDate (fst (handleDropoffChange parseOther localOther today d (s, e))) =
        dropoffDate s"
  proof (cases "n < today")
    case True
    with a dropoff_rejected_past [of parseOther d localOther n today s e] show ?thesis by simp
  next
    case False
    with a dropoff_rejected_order [of parseOther d localOther n today s p e] show ?thesis
      by simp
  qed
qed

theorem handleDropoffChange_effect_witness:
  "fst (handleDropoffChange (\<lambda>_. None) (\<lambda>_. None) 21915 ''2030-01-01'' (exampleBooking, noErrors))
     = exampleBooking \<and>
   dropoffDate (fst (handleDropoffChange (\<lambda>_. None) (\<lambda>_. None) 21915 ''2030-01-01''
     (exampleBooking, noErrors))) = ''2030-01-04'' \<and>
   fst (handleDropoffChange (\<lambda>_. None) (\<lambda>_. None) 21915 ''2029-12-31'' (exampleBooking, noErrors))
     = exampleBooking \<and>
   fst (handleDropoffChange (\<lambda>_. None) (\<lambda>_. None) 21915 ''2030-01-05'' (exampleBooking, noErrors))
     = exampleBooking\<lparr>dropoffDate := ''2030-01-05''\<rparr> \<and>
   dropoffDate (fst (handleDropoffChange rollOverDate rollOverDay 21915 ''2030-02-30''
     (marchBooking, noErrors))) = ''2030-03-09'' \<and>
   dropoffDate (fst (handleDropoffChange (\<lambda>_. None) (\<lambda>_. None) 21915 ''2030-02-30''
     (marchBooking, noErrors))) = ''2030-02-30''"
proof -
  have c: "isCompleteDate (\<lambda>_. None) ''2030-01-01''" "isCompleteDate (\<lambda>_. None) ''2029-12-31''"
    "isCompleteDate (\<lambda>_. None) ''2030-01-05''" "isCompleteDate rollOverDate ''2030-02-30''"
    "isCompleteDate rollOverDate ''2030-03-05''" "\<not> isCompleteDate (\<lambda>_. None) ''2030-02-30''"
    by code_simp+
  have l: "localMidnight (\<lambda>_. None) ''2030-01-01'' = Some 21915"
    "localMidnight (\<lambda>_. None) ''2029-12-31'' = Some 21914"
    "localMidnight (\<lambda>_. None) ''2030-01-05'' = Some 21919"
    "localMidnight rollOverDay ''2030-02-30'' = Some 21975"
    "localMidnight rollOverDay ''2030-03-05'' = Some 21978"
    by code_simp+
  have m: "pickupDate marchBooking = ''2030-03-05''" "dropoffDate marchBooking = ''2030-03-09''"
    by (simp_all add: marchBooking_def initialState_def)
  show ?thesis
    using handleDropoffChange_effect [of "''2030-01-01''" "\<lambda>_. None" "\<lambda>_. None" 21915
        exampleBooking noErrors 21915 21915]
      handleDropoffChange_effect [of "''2029-12-31''" "\<lambda>_. None" "\<lambda>_. None" 21915
        exampleBooking noErrors 0 0]
      handleDropoffChange_effect [of "''2030-01-05''" "\<lambda>_. None" "\<lambda>_. None" 21915
        exampleBooking noErrors 0 0]
      handleDropoffChange_effect [of "''2030-02-30''" rollOverDate rollOverDay 21915
        marchBooking noErrors 21975 21978]
      handleDropoffChange_effect [of "''2030-02-30''" "\<lambda>_. None" "\<lambda>_. None" 21915
        marchBooking noErrors 0 0]
      c l m
    by (simp add: exampleBooking_fields)
qed

section \<open>The dropoff date when the pickup date changes\<close>

text \<open>
  What an accepted pickup value does to the dropoff date, on every engine: the dropoff
  date is emptied when it is set and either the reducer finds it not later than the value
  as a string, or the handler finds both to be complete dates and the dropoff not later
  than the value as a date; it is left as it was otherwise.
\<close>

lemma handlePickupChange_dropoff:
  assumes "\<not> (p \<noteq> [] \<and> isCompleteDate parseOther p \<and>
              dateLt (localMidnight localOther p) (Some today))"
  shows "dropoffDate (fst (handlePickupChange parseOther localOther today p (s, e))) =
     (if dropoffDate s \<noteq> [] \<and>
         (strLe (dropoffDate s) p \<or>
          (isCompleteDate parseOther p \<and> isCompleteDate parseOther (dropoffDate s) \<and>
           \<not> isValidDropoffDate parseOther localOther (dropoffDate s) p))
      then [] else dropoffDate s)"
  using assms isCompleteDate_nonempty [of parseOther p]
  by (auto simp: handlePickupChange_def setPickupDate_def setDropoffDate_def Let_def)




section \<open>Add-ons that arrive late\<close>

lemma dispatchAll_simps:
  "dispatchAll s [] = s" "dispatchAll s (a # as) = dispatchAll (reducer s a) as"
  by (simp_all add: dispatchAll_def)

lemma dispatchAll_append: "dispatchAll s (xs @ ys) = dispatchAll (dispatchAll s xs) ys"
  by (simp add: dispatchAll_def)

lemma handleSelect_state:
  "selectedVehicle (dispatchAll s (handleSelect v)) = Some v"
  "addons (dispatchAll s (handleSelect v)) = []"
  "selectedAddons (dispatchAll s (handleSelect v)) = []"
  by (simp_all add: handleSelect_def dispatchAll_simps selectVehicle_def fetchAddons_pending_def
      Let_def split: option.splits)

text \<open>
  Claim C1, as stated, does not hold. The user selects the Luxury vehicle and then the
  Sedan before the add-ons of the Luxury vehicle have arrived. When they arrive, the
  Sedan is the selected vehicle and the available add-ons are empty; the reducer stores
  the list of the Luxury vehicle all the same, with the chauffeur service that the Sedan
  does not have.
\<close>

theorem stale_fetch_applied:
  "selectedVehicle (dispatchAll initialState staleRace) = Some Sedan \<and>
   v_id Sedan \<noteq> v_id Luxury \<and>
   addons (dispatchAll initialState (handleSelect Luxury @ handleSelect Sedan)) = [] \<and>
   addons (dispatchAll initialState staleRace) = getAddonsByVehicleId (Some (v_id Luxury)) \<and>
   CHAUFFEUR_SERVICE \<in> set (addons (dispatchAll initialState staleRace)) \<and>
   CHAUFFEUR_SERVICE \<notin> set (getAddonsByVehicleId (Some (v_id Sedan)))"
  by code_simp

text \<open>
  Claim C1, amended. The fulfilled action of \<^verbatim>\<open>fetchAddons\<close> replaces the available add-ons
  by its payload, whatever vehicle id the fetch was started for and whatever vehicle is
  selected when it arrives, and changes nothing else. So after the user has selected a
  vehicle and then another one, the result fetched for the first, once it arrives,
  becomes the available add-ons while the second vehicle is the selected one.
\<close>

theorem fetchAddons_fulfilled_effect:
  "addons (fetchAddons_fulfilled arg payload s) = payload \<and>
   fetchAddons_fulfilled arg payload s = s\<lparr>addons := payload\<rparr> \<and>
   selectedVehicle (dispatchAll s (handleSelect a @ handleSelect b @
      [FetchAddonsFulfilled (Some (v_id a)) payload])) = Some b \<and>
   addons (dispatchAll s (handleSelect a @ handleSelect b @
      [FetchAddonsFulfilled (Some (v_id a)) payload])) = payload"
  by (simp add: dispatchAll_append dispatchAll_simps fetchAddons_fulfilled_def handleSelect_state)

section \<open>Selected and available add-ons\<close>

text \<open>
  Claim C5, as stated, does not hold. With the Sedan selected and its add-ons loaded,
  toggling the id 9, which is not among them, puts 9 into the selected ids: the toggle is
  not a no-op, and the selected ids are no subset of the available ones. The same state
  of affairs is reached with ids the add-on list offered: the user ticks the add-on 9 of
  the Luxury vehicle, and then the add-ons of a vehicle selected earlier arrive.
\<close>

theorem selected_not_available:
  "selectedAddons (dispatchAll initialState sedanToggleRun) = [9] \<and>
   9 \<notin> a_id ` set (addons (dispatchAll initialState sedanToggleRun)) \<and>
   \<not> set (selectedAddons (dispatchAll initialState sedanToggleRun))
       \<subseteq> a_id ` set (addons (dispatchAll initialState sedanToggleRun)) \<and>
   selectedAddons (dispatchAll initialState lateSedanRun) = [9] \<and>
   \<not> set (selectedAddons (dispatchAll initialState lateSedanRun))
       \<subseteq> a_id ` set (addons (dispatchAll initialState lateSedanRun)) \<and>
   toggleAddon 9 (initialState\<lparr>addons := getAddonsByVehicleId (Some 1)\<rparr>) \<noteq>
     initialState\<lparr>addons := getAddonsByVehicleId (Some 1)\<rparr>"
  by code_simp

lemma toggleAddon_eq:
  "toggleAddon i s =
     s\<lparr>selectedAddons :=
          (if i \<in> set (selectedAddons s) then remove1 i (selectedAddons s)
           else selectedAddons s @ [i])\<rparr>"
  by (simp add: toggleAddon_def)

lemma toggleAddon_changes: "selectedAddons (toggleAddon i s) \<noteq> selectedAddons s"
proof (cases "i \<in> set (selectedAddons s)")
  case True
  then have "length (remove1 i (selectedAddons s)) < length (selectedAddons s)"
    by (simp add: length_remove1) (cases "selectedAddons s"; simp)
  then show ?thesis using True by (auto simp: toggleAddon_def)
next
  case False
  then show ?thesis by (simp add: toggleAddon_def)
qed

lemma toggled_filter:
  assumes "i \<notin> a_id ` set cat"
  shows "filter (\<lambda>a. a_id a \<in> set (if i \<in> set sel then remove1 i sel else sel @ [i])) cat =
         filter (\<lambda>a. a_id a \<in> set sel) cat"
proof (rule filter_cong [OF refl])
  fix a assume "a \<in> set cat"
  with assms have "a_id a \<noteq> i" by auto
  then show "(a_id a \<in> set (if i \<in> set sel then remove1 i sel else sel @ [i])) =
             (a_id a \<in> set sel)"
    by simp
qed

lemma selectRentalDays_selected:
  "selectRentalDays parseOther (s\<lparr>selectedAddons := sel\<rparr>) = selectRentalDays parseOther s"
  by (simp add: selectRentalDays_def)

lemma selectBookingSummary_selected:
  assumes "filter (\<lambda>a. a_id a \<in> set sel) (addons s) =
           filter (\<lambda>a. a_id a \<in> set (selectedAddons s)) (addons s)"
  shows "selectBookingSummary parseOther (s\<lparr>selectedAddons := sel\<rparr>) =
         selectBookingSummary parseOther s"
  unfolding selectBookingSummary_def selectRentalDays_selected using assms
  by (simp add: Let_def split: option.splits)

text \<open>
  Claim C5, amended. \<^verbatim>\<open>toggleAddon\<close> changes the selected ids and nothing else: it removes
  the id when it is selected and appends it when it is not, whether or not the id is among
  the available add-ons, so it always changes the state. What holds in every state is
  that the add-ons the summary resolves are available add-ons whose ids are selected; an
  id that is not among the available add-ons adds nothing to the summary, and toggling
  such an id leaves the summary as it was.
\<close>

theorem toggleAddon_effect:
  "toggleAddon i s =
     s\<lparr>selectedAddons :=
          (if i \<in> set (selectedAddons s) then remove1 i (selectedAddons s)
           else selectedAddons s @ [i])\<rparr> \<and>
   toggleAddon i s \<noteq> s \<and>
   (i \<notin> a_id ` set (addons s) \<longrightarrow>
      selectBookingSummary parseOther (toggleAddon i s) = selectBookingSummary parseOther s) \<and>
   (case selectBookingSummary parseOther s of
      None \<Rightarrow> True
    | Some summary \<Rightarrow>
        set (selectedAddonObjects summary) \<subseteq> set (addons s) \<and>
        a_id ` set (selectedAddonObjects summary) \<subseteq> set (selectedAddons s))"
proof (intro conjI impI)
  show "toggleAddon i s =
     s\<lparr>selectedAddons :=
          (if i \<in> set (selectedAddons s) then remove1 i (selectedAddons s)
           else selectedAddons s @ [i])\<rparr>"
    by (rule toggleAddon_eq)
  show "toggleAddon i s \<noteq> s"
    using toggleAddon_changes [of i s] by auto
  show "case selectBookingSummary parseOther s of
      None \<Rightarrow> True
    | Some summary \<Rightarrow>
        set (selectedAddonObjects summary) \<subseteq> set (addons s) \<and>
        a_id ` set (selectedAddonObjects summary) \<subseteq> set (selectedAddons s)"
    by (auto simp: selectBookingSummary_def Let_def split: option.splits)
next
  assume "i \<notin> a_id ` set (addons s)"
  then show "selectBookingSummary parseOther (toggleAddon i s) = selectBookingSummary parseOther s"
    unfolding toggleAddon_eq by (intro selectBookingSummary_selected toggled_filter)
qed

theorem toggleAddon_effect_witness:
  "selectedAddons (toggleAddon 9 sedanBooking) = [9] \<and>
   9 \<notin> a_id ` set (addons sedanBooking) \<and>
   selectBookingSummary (\<lambda>_. None) (toggleAddon 9 sedanBooking) =
     selectBookingSummary (\<lambda>_. None) sedanBooking"
proof -
  have n: "9 \<notin> a_id ` set (addons sedanBooking)" by code_simp
  have s: "selectedAddons (toggleAddon 9 sedanBooking) = [9]" by code_simp
  from toggleAddon_effect [of 9 sedanBooking "\<lambda>_. None"] n s show ?thesis by blast
qed

end
